theory Spec2Isabelle
  imports Main "HOL-Library.Sublist"
begin

section \<open>Python string primitives used by \<open>wrds/sql.py\<close>\<close>

text \<open>
  Strings are \<open>char list\<close>; a character stands for a code point below 256. The
  characters that cannot be written inside a literal are named: the backslash, the line
  feed and the carriage return.
\<close>

definition bslash :: char where
  "bslash = CHR 0x5C"

definition newline :: char where
  "newline = CHR 0x0A"

definition cr :: char where
  "cr = CHR 0x0D"

text \<open>
  \<^verbatim>\<open>s.replace(old, new)\<close>: the occurrences of \<open>old\<close> are found from left to right and
  do not overlap. With an empty \<open>old\<close> Python puts \<open>new\<close> before every character and at
  the end.
\<close>

function replace :: "string \<Rightarrow> string \<Rightarrow> string \<Rightarrow> string" where
  "replace old new [] = (if old = [] then new else [])"
| "replace old new (c # cs) =
     (if old = [] then new @ c # replace old new cs
      else if prefix old (c # cs) then new @ replace old new (drop (length old) (c # cs))
      else c # replace old new cs)"
  by pat_completeness auto
termination
  by (relation "measure (\<lambda>(old, new, s). length s)") auto

text \<open>
  \<^verbatim>\<open>s.split(':')\<close>: the separator in the source is always the one-character string
  \<^verbatim>\<open>':'\<close>, so the model takes a character. \<open>n\<close> separators give \<open>n + 1\<close> fields; the
  empty string gives one empty field. \<open>cur\<close> is the field being read.
\<close>

fun split_acc :: "char \<Rightarrow> string \<Rightarrow> string \<Rightarrow> string list" where
  "split_acc sep cur [] = [cur]"
| "split_acc sep cur (c # cs) =
     (if c = sep then cur # split_acc sep [] cs else split_acc sep (cur @ [c]) cs)"

definition split :: "char \<Rightarrow> string \<Rightarrow> string list" where
  "split sep s = split_acc sep [] s"

text \<open>
  A file opened with \<^verbatim>\<open>open(p, 'r')\<close> is read with universal newlines: a carriage
  return followed by a line feed, and a carriage return alone, both arrive as one line
  feed.
\<close>

fun universal_newlines :: "string \<Rightarrow> string" where
  "universal_newlines [] = []"
| "universal_newlines [c] = [if c = cr then newline else c]"
| "universal_newlines (c # d # cs) =
     (if c = cr \<and> d = newline then newline # universal_newlines cs
      else if c = cr then newline # universal_newlines (d # cs)
      else c # universal_newlines (d # cs))"

text \<open>
  \<^verbatim>\<open>fd.readlines()\<close> on the stored text of such a file: the text, with its newlines
  translated, cut after every line feed, each line keeping its line feed; a last line
  without one is kept as it is.
\<close>

fun lines_acc :: "string \<Rightarrow> string \<Rightarrow> string list" where
  "lines_acc cur [] = (if cur = [] then [] else [cur])"
| "lines_acc cur (c # cs) =
     (if c = newline then (cur @ [c]) # lines_acc [] cs else lines_acc (cur @ [c]) cs)"

definition readlines :: "string \<Rightarrow> string list" where
  "readlines s = lines_acc [] (universal_newlines s)"

text \<open>
  A file opened with \<^verbatim>\<open>open(p, 'w')\<close> writes every line feed as the line separator of
  the platform: carriage return and line feed on Windows, the line feed itself elsewhere.
\<close>

definition to_linesep :: "string \<Rightarrow> string \<Rightarrow> string" where
  "to_linesep plat t = (if plat = ''win32'' then replace [newline] [cr, newline] t else t)"

text \<open>\<^verbatim>\<open>s.endswith(suf)\<close> and \<^verbatim>\<open>sep.join(xs)\<close>.\<close>

definition endswith :: "string \<Rightarrow> string \<Rightarrow> bool" where
  "endswith s suf = suffix suf s"

fun join :: "string \<Rightarrow> string list \<Rightarrow> string" where
  "join sep [] = []"
| "join sep [x] = x"
| "join sep (x # y # ys) = x @ sep @ join sep (y # ys)"

text \<open>
  \<^verbatim>\<open>str(n)\<close> and \<^verbatim>\<open>'{}'.format(n)\<close> for a Python integer (unbounded, so \<open>int\<close>): the
  decimal digits, with a minus sign for negative numbers.
\<close>

definition digit_char :: "nat \<Rightarrow> char" where
  "digit_char d = ''0123456789'' ! (d mod 10)"

function nat_digits :: "nat \<Rightarrow> string" where
  "nat_digits n = (if n < 10 then [digit_char n] else nat_digits (n div 10) @ [digit_char (n mod 10)])"
  by pat_completeness auto
termination
  by (relation "measure (\<lambda>n. n)") auto

declare nat_digits.simps [simp del]

definition str_int :: "int \<Rightarrow> string" where
  "str_int i = (if i < 0 then CHR ''-'' # nat_digits (nat (- i)) else nat_digits (nat i))"

text \<open>
  \<^verbatim>\<open>int(s)\<close> for a string, as Python 3 parses it: white space around the number is
  dropped, then an optional sign, then decimal digits, where single underscores may stand
  between two digits. Anything else raises ValueError, here \<open>None\<close>. The white space
  that \<^verbatim>\<open>int\<close> drops is tab, line feed, vertical tab, form feed, carriage return and
  space, and of the code points from 128 on the Unicode spaces, which below 256 are
  U+0085 and U+00A0; the separators U+001C to U+001F are not dropped.
\<close>

definition is_space :: "char \<Rightarrow> bool" where
  "is_space c = (c \<in> set [CHR 0x09, CHR 0x0A, CHR 0x0B, CHR 0x0C, CHR 0x0D, CHR 0x20,
                           CHR 0x85, CHR 0xA0])"

definition is_digit :: "char \<Rightarrow> bool" where
  "is_digit c = (c \<in> set ''0123456789'')"

definition digit_val :: "char \<Rightarrow> nat" where
  "digit_val c = of_char c - 48"

definition strip :: "string \<Rightarrow> string" where
  "strip s = rev (dropWhile is_space (rev (dropWhile is_space s)))"

fun digits_acc :: "nat \<Rightarrow> string \<Rightarrow> nat option" where
  "digits_acc n [] = Some n"
| "digits_acc n (c # cs) =
     (if is_digit c then digits_acc (10 * n + digit_val c) cs
      else if c = CHR ''_'' \<and> cs \<noteq> [] \<and> is_digit (hd cs) then digits_acc n cs
      else None)"

fun parse_nat :: "string \<Rightarrow> nat option" where
  "parse_nat [] = None"
| "parse_nat (c # cs) = (if is_digit c then digits_acc (digit_val c) cs else None)"

fun parse_signed :: "string \<Rightarrow> int option" where
  "parse_signed [] = None"
| "parse_signed (c # cs) =
     (if c = CHR ''-'' then map_option (\<lambda>n. - int n) (parse_nat cs)
      else if c = CHR ''+'' then map_option int (parse_nat cs)
      else map_option int (parse_nat (c # cs)))"

definition int_of_str :: "string \<Rightarrow> int option" where
  "int_of_str s = parse_signed (strip s)"


section \<open>Values, exceptions and the environment\<close>

text \<open>
  The values that come back from the database driver: a text, a number, or \<^verbatim>\<open>None\<close>
  (which is also how the driver hands over SQL NULL). No claim depends on the fraction of
  a number, so numbers are integers.
\<close>

datatype pyval = PyNone | PyStr string | PyInt int

fun truthy :: "pyval \<Rightarrow> bool" where
  "truthy PyNone = False"
| "truthy (PyStr s) = (s \<noteq> [])"
| "truthy (PyInt n) = (n \<noteq> 0)"

fun format_val :: "pyval \<Rightarrow> string" where
  "format_val PyNone = ''None''"
| "format_val (PyStr s) = s"
| "format_val (PyInt n) = str_int n"

text \<open>An attribute that holds a string or \<^verbatim>\<open>None\<close> is a \<open>string option\<close>.\<close>

fun truthy_opt :: "string option \<Rightarrow> bool" where
  "truthy_opt None = False"
| "truthy_opt (Some s) = (s \<noteq> [])"

fun format_opt :: "string option \<Rightarrow> string" where
  "format_opt None = ''None''"
| "format_opt (Some s) = s"

text \<open>
  Exceptions are values: the class and the message. \<open>NotSubscribedError\<close> and
  \<open>SchemaNotFoundError\<close> are the two classes the source declares (subclasses of
  PermissionError and FileNotFoundError); \<open>DatabaseError\<close> stands for whatever the
  database collaborators raise.
\<close>

datatype exn_class =
    NotSubscribedError | SchemaNotFoundError
  | TypeError | IndexError | ValueError | AttributeError | EOFError
  | FileExistsError | FileNotFoundError | PermissionError | IsADirectoryError
  | DatabaseError

datatype exn = Exn exn_class string

fun exn_str :: "exn \<Rightarrow> string" where
  "exn_str (Exn k m) = m"

definition none_subscript :: exn where
  "none_subscript = Exn TypeError (CHR 0x27 # ''NoneType'' @ CHR 0x27 # '' object is not subscriptable'')"

definition index_out_of_range :: exn where
  "index_out_of_range = Exn IndexError ''list index out of range''"

definition invalid_literal :: exn where
  "invalid_literal = Exn ValueError ''invalid literal for int() with base 10''"

definition none_attribute :: "string \<Rightarrow> exn" where
  "none_attribute a = Exn AttributeError (CHR 0x27 # ''NoneType'' @ CHR 0x27 # '' object has no attribute '' @ CHR 0x27 # a @ [CHR 0x27])"

definition no_attribute :: "string \<Rightarrow> exn" where
  "no_attribute a = Exn AttributeError (''object has no attribute '' @ CHR 0x27 # a @ [CHR 0x27])"

definition none_plus_str :: exn where
  "none_plus_str = Exn TypeError ''unsupported operand type(s) for +''"

definition int_of_none :: exn where
  "int_of_none = Exn TypeError ''int() argument must be a string, a bytes-like object or a real number''"

text \<open>\<^verbatim>\<open>int(v)\<close> on a value from the database.\<close>

fun py_int :: "pyval \<Rightarrow> exn + int" where
  "py_int PyNone = Inl int_of_none"
| "py_int (PyStr s) = (case int_of_str s of None \<Rightarrow> Inl invalid_literal | Some n \<Rightarrow> Inr n)"
| "py_int (PyInt n) = Inr n"

text \<open>
  The file system is a map from paths to nodes; a node is a regular file (permission bits
  and text) or a directory (permission bits). The map is flat: whether the parent of a
  path exists is not tracked.
\<close>

datatype node = File nat string | Dir nat

definition S_IRUSR :: nat where "S_IRUSR = 256"
definition S_IWUSR :: nat where "S_IWUSR = 128"

definition owner_readable :: "nat \<Rightarrow> bool" where
  "owner_readable m = odd (m div S_IRUSR)"

definition owner_writable :: "nat \<Rightarrow> bool" where
  "owner_writable m = odd (m div S_IWUSR)"

text \<open>The options that \<open>raw_sql\<close> and \<open>get_table\<close> hand to \<^verbatim>\<open>pandas.read_sql_query\<close>.\<close>

record read_opts =
  coerce_float :: "bool option"
  date_cols :: "string list option"
  index_col :: "string option"

text \<open>
  Everything outside the \<open>Connection\<close> object. \<open>stdin\<close> holds the lines the user will
  type, \<open>console\<close> what has been shown to the user (printed lines, prompts, warnings), in
  order. The database collaborators are functions of the engine's URI: what
  \<^verbatim>\<open>sa.create_engine\<close> and \<^verbatim>\<open>engine.connect\<close> raise (\<open>None\<close>: nothing), what
  \<^verbatim>\<open>engine.execute\<close> and \<^verbatim>\<open>pandas.read_sql_query\<close> return for a statement, and what the
  inspector's \<^verbatim>\<open>get_schema_names\<close> returns. \<open>sql_log\<close> records every statement handed to
  the engine.
\<close>

record world =
  stdin :: "string list"
  console :: "string list"
  os_user :: string
  platform :: string
  environ :: "string \<rightharpoonup> string"
  fs :: "string \<rightharpoonup> node"
  create_engine_result :: "string \<Rightarrow> exn option"
  connect_result :: "string \<Rightarrow> exn option"
  execute_result :: "string \<Rightarrow> string \<Rightarrow> exn + pyval list list"
  read_sql_query_result :: "string \<Rightarrow> string \<Rightarrow> read_opts \<Rightarrow> exn + pyval list list"
  schema_names_result :: "string \<Rightarrow> exn + string list"
  sql_log :: "string list"

text \<open>The attributes of a \<open>Connection\<close> (the source writes them with a leading underscore).\<close>

record conn =
  username :: "string option"
  password :: "string option"
  hostname :: string
  port :: int
  dbname :: string
  engine :: string
  schema_perm :: "string list"

text \<open>The keyword arguments of the constructor; \<open>None\<close> is an argument not passed.\<close>

record kwargs =
  wrds_username :: "string option"
  wrds_hostname :: "string option"
  wrds_port :: "int option"
  wrds_dbname :: "string option"

definition WRDS_POSTGRES_HOST :: string where
  "WRDS_POSTGRES_HOST = ''wrds-pgdata.wharton.upenn.edu''"

definition WRDS_POSTGRES_PORT :: int where
  "WRDS_POSTGRES_PORT = 9737"

definition WRDS_POSTGRES_DB :: string where
  "WRDS_POSTGRES_DB = ''wrds''"

section \<open>Methods as state transformers\<close>

text \<open>
  A method runs on the object and the environment and ends with a value or an exception;
  the state at that point is returned in both cases, so what an aborted call leaves behind
  can be read off.
\<close>

type_synonym state = "conn \<times> world"
type_synonym 'a prog = "state \<Rightarrow> (exn + 'a) \<times> state"

definition ret :: "'a \<Rightarrow> 'a prog" where
  "ret x = (\<lambda>s. (Inr x, s))"

definition raise :: "exn \<Rightarrow> 'a prog" where
  "raise e = (\<lambda>s. (Inl e, s))"

definition then_do :: "'a prog \<Rightarrow> ('a \<Rightarrow> 'b prog) \<Rightarrow> 'b prog" where
  "then_do m f = (\<lambda>s. case m s of (Inl e, s') \<Rightarrow> (Inl e, s') | (Inr x, s') \<Rightarrow> f x s')"

definition try_except :: "'a prog \<Rightarrow> (exn \<Rightarrow> 'a prog) \<Rightarrow> 'a prog" where
  "try_except m h = (\<lambda>s. case m s of (Inl e, s') \<Rightarrow> h e s' | (Inr x, s') \<Rightarrow> (Inr x, s'))"

definition lift :: "exn + 'a \<Rightarrow> 'a prog" where
  "lift r = (case r of Inl e \<Rightarrow> raise e | Inr x \<Rightarrow> ret x)"

definition self_get :: "(conn \<Rightarrow> 'a) \<Rightarrow> 'a prog" where
  "self_get f = (\<lambda>(c, w). (Inr (f c), (c, w)))"

definition self_upd :: "(conn \<Rightarrow> conn) \<Rightarrow> unit prog" where
  "self_upd f = (\<lambda>(c, w). (Inr (), (f c, w)))"

definition world_get :: "(world \<Rightarrow> 'a) \<Rightarrow> 'a prog" where
  "world_get f = (\<lambda>(c, w). (Inr (f w), (c, w)))"

definition world_upd :: "(world \<Rightarrow> world) \<Rightarrow> unit prog" where
  "world_upd f = (\<lambda>(c, w). (Inr (), (c, f w)))"

subsection \<open>The console\<close>

definition print :: "string \<Rightarrow> unit prog" where
  "print s = world_upd (\<lambda>w. w\<lparr>console := console w @ [s]\<rparr>)"

definition warn :: "string \<Rightarrow> unit prog" where
  "warn s = world_upd (\<lambda>w. w\<lparr>console := console w @ [s]\<rparr>)"

text \<open>
  \<^verbatim>\<open>input(prompt)\<close> and \<^verbatim>\<open>getpass.getpass(prompt)\<close>: the prompt is shown, then a line is
  read; at the end of the input both raise EOFError.
\<close>

definition read_line :: "string \<Rightarrow> string prog" where
  "read_line prompt =
     then_do (world_upd (\<lambda>w. w\<lparr>console := console w @ [prompt]\<rparr>)) (\<lambda>_.
     then_do (world_get stdin) (\<lambda>ls.
       case ls of
         [] \<Rightarrow> raise (Exn EOFError ''EOF when reading a line'')
       | l # rest \<Rightarrow> then_do (world_upd (\<lambda>w. w\<lparr>stdin := rest\<rparr>)) (\<lambda>_. ret l)))"

definition input :: "string \<Rightarrow> string prog" where
  "input prompt = read_line prompt"

definition getpass :: "string \<Rightarrow> string prog" where
  "getpass prompt = read_line prompt"

subsection \<open>The file system\<close>

definition path_sep :: "string prog" where
  "path_sep = then_do (world_get platform) (\<lambda>p. ret (if p = ''win32'' then [bslash] else ''/''))"

definition getenv :: "string \<Rightarrow> string option prog" where
  "getenv name = world_get (\<lambda>w. environ w name)"

definition path_exists :: "string \<Rightarrow> bool prog" where
  "path_exists p = world_get (\<lambda>w. fs w p \<noteq> None)"

definition isdir :: "string \<Rightarrow> bool prog" where
  "isdir p = world_get (\<lambda>w. case fs w p of Some (Dir m) \<Rightarrow> True | _ \<Rightarrow> False)"

definition isfile :: "string \<Rightarrow> bool prog" where
  "isfile p = world_get (\<lambda>w. case fs w p of Some (File m t) \<Rightarrow> True | _ \<Rightarrow> False)"

definition mkdir :: "string \<Rightarrow> unit prog" where
  "mkdir p =
     then_do (world_get (\<lambda>w. fs w p)) (\<lambda>n.
       case n of
         Some _ \<Rightarrow> raise (Exn FileExistsError p)
       | None \<Rightarrow> world_upd (\<lambda>w. w\<lparr>fs := (fs w)(p \<mapsto> Dir 493)\<rparr>))"

definition chmod :: "string \<Rightarrow> nat \<Rightarrow> unit prog" where
  "chmod p m =
     then_do (world_get (\<lambda>w. fs w p)) (\<lambda>n.
       case n of
         None \<Rightarrow> raise (Exn FileNotFoundError p)
       | Some (File m0 t) \<Rightarrow> world_upd (\<lambda>w. w\<lparr>fs := (fs w)(p \<mapsto> File m t)\<rparr>)
       | Some (Dir m0) \<Rightarrow> world_upd (\<lambda>w. w\<lparr>fs := (fs w)(p \<mapsto> Dir m)\<rparr>))"

text \<open>
  \<^verbatim>\<open>open(p, 'r')\<close>: the stored text of the file; \<open>readlines\<close> translates its
  newlines.
\<close>

definition read_file :: "string \<Rightarrow> string prog" where
  "read_file p =
     then_do (world_get (\<lambda>w. fs w p)) (\<lambda>n.
       case n of
         None \<Rightarrow> raise (Exn FileNotFoundError p)
       | Some (Dir m) \<Rightarrow> raise (Exn IsADirectoryError p)
       | Some (File m t) \<Rightarrow> if owner_readable m then ret t else raise (Exn PermissionError p))"

text \<open>
  \<^verbatim>\<open>open(p, 'w')\<close> followed by writing the text: an existing file is replaced as a whole
  and keeps its permission bits; a new file gets the bits 0644. What is stored is the text
  with the platform's line separators.
\<close>

definition write_file :: "string \<Rightarrow> string \<Rightarrow> unit prog" where
  "write_file p t =
     then_do (world_get (\<lambda>w. fs w p)) (\<lambda>n.
       case n of
         None \<Rightarrow>
           world_upd (\<lambda>w. w\<lparr>fs := (fs w)(p \<mapsto> File 420 (to_linesep (platform w) t))\<rparr>)
       | Some (Dir m) \<Rightarrow> raise (Exn IsADirectoryError p)
       | Some (File m t0) \<Rightarrow>
           if owner_writable m
           then world_upd (\<lambda>w. w\<lparr>fs := (fs w)(p \<mapsto> File m (to_linesep (platform w) t))\<rparr>)
           else raise (Exn PermissionError p))"

subsection \<open>The database collaborators\<close>

definition create_engine :: "string \<Rightarrow> unit prog" where
  "create_engine uri =
     then_do (world_get (\<lambda>w. create_engine_result w uri)) (\<lambda>r.
       case r of
         Some e \<Rightarrow> raise e
       | None \<Rightarrow> self_upd (\<lambda>c. c\<lparr>engine := uri\<rparr>))"

definition engine_connect :: "unit prog" where
  "engine_connect =
     then_do (self_get engine) (\<lambda>uri.
     then_do (world_get (\<lambda>w. connect_result w uri)) (\<lambda>r.
       case r of Some e \<Rightarrow> raise e | None \<Rightarrow> ret ()))"

definition engine_execute :: "string \<Rightarrow> pyval list list prog" where
  "engine_execute sql =
     then_do (self_get engine) (\<lambda>uri.
     then_do (world_upd (\<lambda>w. w\<lparr>sql_log := sql_log w @ [sql]\<rparr>)) (\<lambda>_.
     then_do (world_get (\<lambda>w. execute_result w uri sql)) lift))"

definition read_sql_query :: "string \<Rightarrow> read_opts \<Rightarrow> pyval list list prog" where
  "read_sql_query sql opts =
     then_do (self_get engine) (\<lambda>uri.
     then_do (world_upd (\<lambda>w. w\<lparr>sql_log := sql_log w @ [sql]\<rparr>)) (\<lambda>_.
     then_do (world_get (\<lambda>w. read_sql_query_result w uri sql opts)) lift))"

definition get_schema_names :: "string list prog" where
  "get_schema_names =
     then_do (self_get engine) (\<lambda>uri.
     then_do (world_get (\<lambda>w. schema_names_result w uri)) lift)"

text \<open>\<^verbatim>\<open>result.fetchone()[0]\<close>: the first column of the first row.\<close>

fun fetchone_0 :: "pyval list list \<Rightarrow> exn + pyval" where
  "fetchone_0 [] = Inl none_subscript"
| "fetchone_0 ([] # rows) = Inl index_out_of_range"
| "fetchone_0 ((v # vs) # rows) = Inr v"


section \<open>The class \<open>Connection\<close>\<close>

subsection \<open>\<open>__get_user_credentials\<close>\<close>

text \<open>\<open>os_user\<close> of the environment is what \<^verbatim>\<open>getpass.getuser()\<close> returns.\<close>

definition get_user_credentials :: "(string \<times> string) prog" where
  "get_user_credentials =
     then_do (world_get os_user) (\<lambda>uname.
     then_do (input (''Enter your WRDS username ['' @ uname @ '']:'')) (\<lambda>typed.
     then_do (ret (if typed = [] then uname else typed)) (\<lambda>user.
     then_do (getpass ''Enter your password:'') (\<lambda>passwd.
     ret (user, passwd)))))"

subsection \<open>\<open>__init__\<close>\<close>

definition pguri_user :: "conn \<Rightarrow> string" where
  "pguri_user c =
     ''postgresql://'' @ format_opt (username c) @ ''@'' @ hostname c @ '':'' @ str_int (port c)
       @ ''/'' @ dbname c"

definition pguri_host :: "conn \<Rightarrow> string" where
  "pguri_host c = ''postgresql://'' @ hostname c @ '':'' @ str_int (port c) @ ''/'' @ dbname c"

definition pghost :: "conn \<Rightarrow> string" where
  "pghost c =
     ''postgresql://'' @ format_opt (username c) @ '':'' @ format_opt (password c) @ ''@''
       @ hostname c @ '':'' @ str_int (port c) @ ''/'' @ dbname c"

definition pgpass_warning :: string where
  "pgpass_warning = ''WRDS recommends setting up a .pgpass file. You can find more info here: https://www.postgresql.org/docs/9.5/static/libpq-pgpass.html.''"

definition discovery_query :: string where
  \<open>discovery_query = newline # join [newline] [
     ''        WITH RECURSIVE "names"("name") AS ('',
     ''        SELECT n.nspname AS "name"'',
     ''        FROM pg_catalog.pg_namespace n'',
     ''        WHERE n.nspname !~ '^pg_'' @ [CHR 0x27],
     ''        AND n.nspname <> 'information_schema'' @ [CHR 0x27],
     ''        ) SELECT "name"'',
     ''        from "names"'',
     ''        where pg_catalog.has_schema_privilege(current_user, "name", 'USAGE') = TRUE'',
     ''        ;'',
     ''        '']\<close>

text \<open>
  The list comprehension that fills \<open>schema_perm\<close>:
  \<^verbatim>\<open>[x[0] for x in cursor.fetchall() if not (x[0].endswith('_old') or x[0].endswith('_all'))]\<close>.
  A row without columns raises IndexError, a first column that is not a string raises
  AttributeError.
\<close>

fun perm_of_rows :: "pyval list list \<Rightarrow> exn + string list" where
  "perm_of_rows [] = Inr []"
| "perm_of_rows ([] # rows) = Inl index_out_of_range"
| "perm_of_rows ((PyStr s # vs) # rows) =
     (if \<not> (endswith s ''_old'' \<or> endswith s ''_all'')
      then (case perm_of_rows rows of Inl e \<Rightarrow> Inl e | Inr names \<Rightarrow> Inr (s # names))
      else perm_of_rows rows)"
| "perm_of_rows ((PyNone # vs) # rows) = Inl (none_attribute ''endswith'')"
| "perm_of_rows ((PyInt n # vs) # rows) = Inl (no_attribute ''endswith'')"

definition new_conn :: "kwargs \<Rightarrow> conn" where
  "new_conn kw =
     \<lparr>username = wrds_username kw,
      password = Some [],
      hostname = (case wrds_hostname kw of None \<Rightarrow> WRDS_POSTGRES_HOST | Some h \<Rightarrow> h),
      port = (case wrds_port kw of None \<Rightarrow> WRDS_POSTGRES_PORT | Some p \<Rightarrow> p),
      dbname = (case wrds_dbname kw of None \<Rightarrow> WRDS_POSTGRES_DB | Some d \<Rightarrow> d),
      engine = [],
      schema_perm = []\<rparr>"

text \<open>
  The handler of the first \<^verbatim>\<open>try\<close>: ask for the credentials, build the engine with the
  password in the URI, warn, and connect again; if that fails too, print, clear both
  credentials and raise the second error again.
\<close>

definition init_retry :: "unit prog" where
  "init_retry =
     then_do get_user_credentials (\<lambda>up.
     then_do (self_upd (\<lambda>c. c\<lparr>username := Some (fst up), password := Some (snd up)\<rparr>)) (\<lambda>_.
     then_do (self_get pghost) (\<lambda>uri.
     then_do (create_engine uri) (\<lambda>_.
     then_do (warn pgpass_warning) (\<lambda>_.
     try_except engine_connect (\<lambda>e.
       then_do (print ''There was an error with your password.'') (\<lambda>_.
       then_do (self_upd (\<lambda>c. c\<lparr>username := None\<rparr>)) (\<lambda>_.
       then_do (self_upd (\<lambda>c. c\<lparr>password := None\<rparr>)) (\<lambda>_.
       raise e)))))))))"

text \<open>The URI of the first engine: with the user name if one was passed in, without it otherwise.\<close>

definition first_uri :: "conn \<Rightarrow> string" where
  "first_uri c = (if truthy_opt (username c) then pguri_user c else pguri_host c)"

text \<open>The constructor up to the end of the outer \<^verbatim>\<open>try\<close>.\<close>

definition init_connect :: "kwargs \<Rightarrow> unit prog" where
  "init_connect kw =
     then_do (self_upd (\<lambda>_. new_conn kw)) (\<lambda>_.
     then_do (self_get first_uri) (\<lambda>uri.
     then_do (create_engine uri) (\<lambda>_.
     try_except engine_connect (\<lambda>e. init_retry))))"

text \<open>The rest of the constructor: loading the list of libraries.\<close>

definition init_load :: "unit prog" where
  "init_load =
     then_do (print ''Loading library list...'') (\<lambda>_.
     then_do (engine_execute discovery_query) (\<lambda>rows.
     then_do (lift (perm_of_rows rows)) (\<lambda>names.
     then_do (self_upd (\<lambda>c. c\<lparr>schema_perm := names\<rparr>)) (\<lambda>_.
     print ''Done''))))"

definition init :: "kwargs \<Rightarrow> unit prog" where
  "init kw = then_do (init_connect kw) (\<lambda>_. init_load)"

subsection \<open>\<open>__write_pgpass_file\<close>\<close>

definition pgpass_line :: "conn \<Rightarrow> string \<Rightarrow> string" where
  "pgpass_line c passwd =
     hostname c @ '':'' @ str_int (port c) @ '':'' @ dbname c @ '':'' @ format_opt (username c)
       @ '':'' @ passwd"

text \<open>
  The test of the loop,
  \<^verbatim>\<open>fields[0] == self._hostname and int(fields[1]) == self._port and fields[2] == self._dbname\<close>:
  \<^verbatim>\<open>and\<close> stops at the first conjunct that is false, so a missing field or a port
  that is not a number raises only when the conjuncts before it hold.
\<close>

fun line_matches :: "conn \<Rightarrow> string list \<Rightarrow> exn + bool" where
  "line_matches c [] = Inl index_out_of_range"
| "line_matches c (f0 # fs1) =
     (if f0 \<noteq> hostname c then Inr False
      else (case fs1 of
        [] \<Rightarrow> Inl index_out_of_range
      | f1 # fs2 \<Rightarrow>
          (case int_of_str f1 of
             None \<Rightarrow> Inl invalid_literal
           | Some p \<Rightarrow>
               (if p \<noteq> port c then Inr False
                else (case fs2 of
                  [] \<Rightarrow> Inl index_out_of_range
                | f2 # fs3 \<Rightarrow> Inr (f2 = dbname c))))))"

text \<open>
  The loop over the lines read: a line whose first three fields match is replaced by the
  new line, every other line is kept. The new line is \<open>pgpass_line\<close>; it has no line feed.
\<close>

fun merge_lines :: "conn \<Rightarrow> string \<Rightarrow> string list \<Rightarrow> exn + string list" where
  "merge_lines c passwd [] = Inr []"
| "merge_lines c passwd (line # rest) =
     (let oldline = replace [bslash, CHR '':''] ''##COLON##'' line;
          fields = split (CHR '':'') oldline
      in case line_matches c fields of
           Inl e \<Rightarrow> Inl e
         | Inr m \<Rightarrow>
             (case merge_lines c passwd rest of
                Inl e \<Rightarrow> Inl e
              | Inr newlines \<Rightarrow> Inr ((if m then pgpass_line c passwd else line) # newlines)))"

text \<open>\<^verbatim>\<open>with open(pgfile, 'r') as fd: lines = fd.readlines()\<close>.\<close>

definition read_lines :: "string \<Rightarrow> string list prog" where
  "read_lines pgfile = then_do (read_file pgfile) (\<lambda>stored. ret (readlines stored))"

definition write_pgpass_file :: "string \<Rightarrow> unit prog" where
  "write_pgpass_file pgfile =
     then_do (self_get password) (\<lambda>pw.
     then_do (case pw of None \<Rightarrow> raise (none_attribute ''replace'')
                       | Some p \<Rightarrow> ret (replace '':'' [bslash, CHR '':''] p)) (\<lambda>passwd.
     then_do (isfile pgfile) (\<lambda>there.
     then_do (if there
              then then_do (read_lines pgfile) (\<lambda>lines.
                   then_do (self_get id) (\<lambda>c. lift (merge_lines c passwd lines)))
              else then_do (self_get id) (\<lambda>c. ret [pgpass_line c passwd])) (\<lambda>lines.
     write_file pgfile (concat lines @ [newline])))))"

subsection \<open>\<open>create_pgpass_file\<close> and its two platform variants\<close>

definition create_pgpass_file_win32 :: "unit prog" where
  "create_pgpass_file_win32 =
     then_do (getenv ''APPDATA'') (\<lambda>appdata.
     then_do path_sep (\<lambda>sep.
     then_do (case appdata of None \<Rightarrow> raise none_plus_str
                            | Some a \<Rightarrow> ret (a @ sep @ ''postgresql'')) (\<lambda>pgdir.
     then_do (path_exists pgdir) (\<lambda>ex.
     then_do (if \<not> ex then mkdir pgdir
              else then_do (isdir pgdir) (\<lambda>d.
                if \<not> d
                then raise (Exn FileExistsError
                       (''Cannot create directory '' @ pgdir @ '': path exists but is not a directory''))
                else ret ())) (\<lambda>_.
     write_pgpass_file (pgdir @ sep @ ''pgpass.conf''))))))"

definition create_pgpass_file_unix :: "unit prog" where
  "create_pgpass_file_unix =
     then_do (getenv ''HOME'') (\<lambda>homedir.
     then_do path_sep (\<lambda>sep.
     then_do (case homedir of None \<Rightarrow> raise none_plus_str
                            | Some h \<Rightarrow> ret (h @ sep @ ''.pgpass'')) (\<lambda>pgfile.
     then_do (isfile pgfile) (\<lambda>there.
     then_do (if there then chmod pgfile (S_IRUSR + S_IWUSR) else ret ()) (\<lambda>_.
     then_do (write_pgpass_file pgfile) (\<lambda>_.
     chmod pgfile S_IRUSR))))))"

text \<open>
  The body of the first \<^verbatim>\<open>if\<close> of \<open>create_pgpass_file\<close>,
  \<^verbatim>\<open>self._username, self._password = self.__get_user_credentials()\<close>, and the choice of
  the platform's writer that ends the method.
\<close>

definition ask_credentials :: "unit prog" where
  "ask_credentials =
     then_do get_user_credentials (\<lambda>up.
     self_upd (\<lambda>c. c\<lparr>username := Some (fst up), password := Some (snd up)\<rparr>))"

definition platform_writer :: "unit prog" where
  "platform_writer =
     then_do (world_get platform) (\<lambda>p.
     if p = ''win32'' then create_pgpass_file_win32 else create_pgpass_file_unix)"

definition create_pgpass_file :: "unit prog" where
  "create_pgpass_file =
     then_do (self_get (\<lambda>c. \<not> truthy_opt (username c) \<or> \<not> truthy_opt (password c))) (\<lambda>ask.
     then_do (if ask then ask_credentials else ret ()) (\<lambda>_.
     platform_writer))"

subsection \<open>\<open>__check_schema_perms\<close>\<close>

definition check_schema_perms :: "string \<Rightarrow> bool prog" where
  "check_schema_perms schema =
     then_do (self_get schema_perm) (\<lambda>perm.
     if schema \<in> set perm then ret True
     else then_do get_schema_names (\<lambda>names.
       if schema \<in> set names
       then raise (Exn NotSubscribedError
              (''You do not have permission to access the '' @ schema @ '' library''))
       else raise (Exn SchemaNotFoundError (''The '' @ schema @ '' library is not found.''))))"

subsection \<open>\<open>__get_schema_for_view\<close> and \<open>get_row_count\<close>\<close>

definition view_sql :: "string \<Rightarrow> string \<Rightarrow> string" where
  "view_sql schema view = join [newline] [
     ''SELECT distinct(source_ns.nspname) as source_schema'',
     ''                      FROM pg_depend'',
     ''                      JOIN pg_rewrite ON pg_depend.objid = pg_rewrite.oid'',
     ''                      JOIN pg_class as dependent_view ON pg_rewrite.ev_class = dependent_view.oid'',
     ''                      JOIN pg_class as source_table ON pg_depend.refobjid = source_table.oid'',
     ''                      JOIN pg_attribute ON pg_depend.refobjid = pg_attribute.attrelid'',
     ''                      AND pg_depend.refobjsubid = pg_attribute.attnum'',
     ''                      JOIN pg_namespace dependent_ns ON dependent_ns.oid = dependent_view.relnamespace'',
     ''                      JOIN pg_namespace source_ns ON source_ns.oid = source_table.relnamespace'',
     ''                      where dependent_ns.nspname = '' @ CHR 0x27 # schema @ CHR 0x27 #
       '' and dependent_view.relname = '' @ CHR 0x27 # view @ CHR 0x27 # '';'',
     ''                    '']"

text \<open>
  The method returns the first column of the first row, or, when the permission check
  returns something false, nothing at all, which is \<^verbatim>\<open>None\<close>.
\<close>

definition get_schema_for_view :: "string \<Rightarrow> string \<Rightarrow> pyval prog" where
  "get_schema_for_view schema table =
     then_do (check_schema_perms schema) (\<lambda>ok.
     if ok
     then then_do (engine_execute (view_sql schema table)) (\<lambda>rows. lift (fetchone_0 rows))
     else ret PyNone)"

definition count_sql :: "string \<Rightarrow> string \<Rightarrow> string" where
  "count_sql schema table = newline # join [newline] [
     ''                select reltuples from pg_class r JOIN pg_namespace n on (r.relnamespace = n.oid)'',
     ''                where r.relkind = 'r' and n.nspname = '' @ CHR 0x27 # schema @ CHR 0x27 #
       '' and r.relname = '' @ CHR 0x27 # table @ CHR 0x27 # '';'',
     ''                '']"

text \<open>The result is the count, or \<open>None\<close> for Python's \<^verbatim>\<open>None\<close>.\<close>

definition get_row_count :: "string \<Rightarrow> string \<Rightarrow> int option prog" where
  "get_row_count library table =
     then_do (get_schema_for_view library table) (\<lambda>schema.
     if truthy schema
     then try_except
            (then_do (engine_execute (count_sql (format_val schema) table)) (\<lambda>rows.
             then_do (lift (fetchone_0 rows)) (\<lambda>v.
             then_do (lift (py_int v)) (\<lambda>n. ret (Some n)))))
            (\<lambda>e. then_do (print (''There was a problem with retrieving the row count: '' @ exn_str e))
                    (\<lambda>_. ret (Some 0)))
     else then_do (print ''There was a problem with retrieving the schema'') (\<lambda>_. ret None))"

subsection \<open>\<open>raw_sql\<close> and \<open>get_table\<close>\<close>

text \<open>
  \<open>raw_sql\<close> catches \<^verbatim>\<open>ProgrammingError\<close> only to raise it again, so every error of the
  query passes through. The frame that comes back is the list of its rows.
\<close>

definition raw_sql :: "string \<Rightarrow> read_opts \<Rightarrow> pyval list list prog" where
  "raw_sql sql opts = try_except (read_sql_query sql opts) (\<lambda>e. raise e)"

definition table_sql :: "string \<Rightarrow> string \<Rightarrow> string \<Rightarrow> string \<Rightarrow> int \<Rightarrow> string" where
  "table_sql cols schema table obsstmt offset =
     ''select '' @ cols @ '' from '' @ schema @ ''.'' @ table @ '' '' @ obsstmt @ '' OFFSET ''
       @ str_int offset @ '';''"

text \<open>
  \<open>columns\<close> is \<open>None\<close> or the list of column names. The result is the frame, or \<open>None\<close>
  where the method falls off its end.
\<close>

definition get_table ::
  "string \<Rightarrow> string \<Rightarrow> int \<Rightarrow> int \<Rightarrow> string list option \<Rightarrow> read_opts \<Rightarrow> pyval list list option prog"
where
  "get_table library table obs offset columns opts =
     (let obsstmt = (if obs < 0 then [] else '' LIMIT '' @ str_int obs);
          cols = (case columns of None \<Rightarrow> ''*'' | Some cs \<Rightarrow> join '','' cs)
      in then_do (check_schema_perms library) (\<lambda>ok.
         if ok
         then then_do (raw_sql (table_sql cols library table obsstmt offset) opts)
                (\<lambda>frame. ret (Some frame))
         else ret None))"


section \<open>Concrete objects and environments\<close>

text \<open>
  A connection to \<open>hostA\<close>, a quiet environment on Linux, and two credential files: one
  with a profile for \<open>hostB\<close> only, one with a profile for \<open>hostA\<close> followed by one for
  \<open>hostB\<close>.
\<close>

definition conn_A :: conn where
  "conn_A =
     \<lparr>username = Some ''alice'', password = Some ''secret'', hostname = ''hostA'', port = 5432,
      dbname = ''db1'', engine = ''postgresql://hostA:5432/db1'', schema_perm = [''crsp'']\<rparr>"

definition world_0 :: world where
  "world_0 =
     \<lparr>stdin = [], console = [], os_user = ''me'', platform = ''linux'',
      environ = [''HOME'' \<mapsto> ''/home/me''], fs = Map.empty,
      create_engine_result = (\<lambda>uri. None), connect_result = (\<lambda>uri. None),
      execute_result = (\<lambda>uri sql. Inr []),
      read_sql_query_result = (\<lambda>uri sql opts. Inr []),
      schema_names_result = (\<lambda>uri. Inr [''crsp'', ''comp'']), sql_log = []\<rparr>"

definition line_B :: string where
  "line_B = ''hostB:5432:db2:u2:p2'' @ [newline]"

definition line_A :: string where
  "line_A = ''hostA:5432:db1:u1:p1'' @ [newline]"

definition world_B :: world where
  "world_B = world_0\<lparr>fs := [''pgpass'' \<mapsto> File 384 line_B]\<rparr>"

definition world_AB :: world where
  "world_AB = world_0\<lparr>fs := [''pgpass'' \<mapsto> File 384 (line_A @ line_B)]\<rparr>"

text \<open>The stored text of a regular file, and the empty text where there is none.\<close>

definition file_text :: "world \<Rightarrow> string \<Rightarrow> string" where
  "file_text w p = (case fs w p of Some (File m t) \<Rightarrow> t | _ \<Rightarrow> [])"

text \<open>
  The lines of a text that the test of the merge loop accepts for a connection, that is
  the lines whose (hostname, port, database name) is the connection's.
\<close>

definition matching_lines :: "conn \<Rightarrow> string \<Rightarrow> string list" where
  "matching_lines c t =
     filter (\<lambda>line. line_matches c (split (CHR '':'') (replace [bslash, CHR '':''] ''##COLON##'' line)) = Inr True)
       (readlines t)"

text \<open>The state after a run, and its result.\<close>

definition result_of :: "(exn + 'a) \<times> state \<Rightarrow> exn + 'a" where
  "result_of r = fst r"

definition self_of :: "(exn + 'a) \<times> state \<Rightarrow> conn" where
  "self_of r = fst (snd r)"

definition world_of :: "(exn + 'a) \<times> state \<Rightarrow> world" where
  "world_of r = snd (snd r)"

definition kwargs_none :: kwargs where
  "kwargs_none = \<lparr>wrds_username = None, wrds_hostname = None, wrds_port = None, wrds_dbname = None\<rparr>"

text \<open>An environment whose discovery query returns four names, two of them with a reserved suffix.\<close>

definition world_lib :: world where
  "world_lib =
     world_0\<lparr>execute_result :=
       (\<lambda>uri sql. Inr [[PyStr ''crsp''], [PyStr ''crsp_all''], [PyStr ''comp_old''], [PyStr ''old'']])\<rparr>"

text \<open>An environment whose server refuses every connection; the user types an empty name and a password.\<close>

definition world_refused :: world where
  "world_refused =
     world_0\<lparr>connect_result := (\<lambda>uri. Some (Exn DatabaseError ''connection refused'')),
             stdin := [[], ''pw'']\<rparr>"

text \<open>
  A program is quiet when it shows nothing, reads no input and leaves the object as it
  is.
\<close>

definition quiet :: "'a prog \<Rightarrow> bool" where
  "quiet m =
     (\<forall>c w. console (world_of (m (c, w))) = console w \<and> stdin (world_of (m (c, w))) = stdin w
        \<and> self_of (m (c, w)) = c)"

text \<open>
  An environment in which the user types a name and a password, with one more line of
  input left over, and \<open>create_pgpass_file\<close> called twice in succession.
\<close>

definition world_typed :: world where
  "world_typed = world_0\<lparr>stdin := [''alice'', ''secret'', ''again'']\<rparr>"

definition create_twice :: "unit prog" where
  "create_twice = then_do create_pgpass_file (\<lambda>_. create_pgpass_file)"

text \<open>The prompt for the user name.\<close>

definition username_prompt :: "world \<Rightarrow> string" where
  "username_prompt w = ''Enter your WRDS username ['' @ os_user w @ '']:''"

text \<open>The merge-write run twice in succession on the same file.\<close>

definition write_twice :: "string \<Rightarrow> unit prog" where
  "write_twice pgfile = then_do (write_pgpass_file pgfile) (\<lambda>_. write_pgpass_file pgfile)"

text \<open>The default options of \<open>get_table\<close>.\<close>

definition opts_default :: read_opts where
  "opts_default = \<lparr>coerce_float = None, date_cols = None, index_col = None\<rparr>"


text \<open>
  What escaping does to a password, character by character, and what the merge loop's
  placeholder does to it.
\<close>

definition escaped :: "string \<Rightarrow> string" where
  "escaped p = concat (map (\<lambda>ch. if ch = CHR '':'' then [bslash, CHR '':''] else [ch]) p)"

definition placeheld :: "string \<Rightarrow> string" where
  "placeheld p = concat (map (\<lambda>ch. if ch = CHR '':'' then ''##COLON##'' else [ch]) p)"



text \<open>The object that the constructor leaves after a passwordless connection in \<open>world_lib\<close>.\<close>

definition conn_trusted :: conn where
  "conn_trusted =
     \<lparr>username = None, password = Some [], hostname = ''wrds-pgdata.wharton.upenn.edu'',
      port = 9737, dbname = ''wrds'',
      engine = ''postgresql://wrds-pgdata.wharton.upenn.edu:9737/wrds'',
      schema_perm = [''crsp'', ''old'']\<rparr>"

section \<open>Properties\<close>

lemmas prog_defs = ret_def raise_def then_do_def try_except_def lift_def self_get_def
  self_upd_def world_get_def world_upd_def

subsection \<open>The authorization check\<close>

text \<open>
  Claim C1. When the inspector returns the catalog's schema list, \<open>__check_schema_perms\<close>
  has exactly three outcomes, told apart by where the name is: in \<open>schema_perm\<close> it returns
  \<open>True\<close>; not there but in the catalog it raises \<open>NotSubscribedError\<close>; in neither it
  raises \<open>SchemaNotFoundError\<close>. The three conditions exclude one another and cover every
  name, and the three results differ. The state is unchanged.
\<close>

theorem check_schema_perms_outcomes:
  assumes "schema_names_result w (engine c) = Inr catalog"
  shows "(schema \<in> set (schema_perm c) \<longrightarrow>
            check_schema_perms schema (c, w) = (Inr True, (c, w)))
       \<and> (schema \<notin> set (schema_perm c) \<and> schema \<in> set catalog \<longrightarrow>
            check_schema_perms schema (c, w) =
              (Inl (Exn NotSubscribedError
                 (''You do not have permission to access the '' @ schema @ '' library'')), (c, w)))
       \<and> (schema \<notin> set (schema_perm c) \<and> schema \<notin> set catalog \<longrightarrow>
            check_schema_perms schema (c, w) =
              (Inl (Exn SchemaNotFoundError (''The '' @ schema @ '' library is not found.'')), (c, w)))"
  using assms by (simp add: check_schema_perms_def get_schema_names_def prog_defs)

theorem check_schema_perms_outcomes_witness:
  "check_schema_perms ''crsp'' (conn_A, world_0) = (Inr True, (conn_A, world_0))
   \<and> check_schema_perms ''comp'' (conn_A, world_0) =
       (Inl (Exn NotSubscribedError ''You do not have permission to access the comp library''),
        (conn_A, world_0))
   \<and> check_schema_perms ''crps'' (conn_A, world_0) =
       (Inl (Exn SchemaNotFoundError ''The crps library is not found.''), (conn_A, world_0))"
proof -
  have cat: "schema_names_result world_0 (engine conn_A) = Inr [''crsp'', ''comp'']"
    by (simp add: world_0_def)
  have perm: "schema_perm conn_A = [''crsp'']"
    by (simp add: conn_A_def)
  show ?thesis
    using check_schema_perms_outcomes [OF cat, of "''crsp''"]
          check_schema_perms_outcomes [OF cat, of "''comp''"]
          check_schema_perms_outcomes [OF cat, of "''crps''"]
    by (simp add: perm)
qed

subsection \<open>The constructor\<close>

lemma perm_of_rows_suffix:
  "perm_of_rows rows = Inr names \<Longrightarrow> n \<in> set names \<Longrightarrow>
     \<not> endswith n ''_old'' \<and> \<not> endswith n ''_all''"
  by (induction rows arbitrary: names rule: perm_of_rows.induct)
     (auto split: if_splits sum.splits)

lemma init_load_perm:
  assumes "init_load (c1, w1) = (Inr u, (c, w))"
  shows "\<exists>rows. execute_result w1 (engine c1) discovery_query = Inr rows
           \<and> perm_of_rows rows = Inr (schema_perm c)"
  using assms
  by (auto simp: init_load_def engine_execute_def print_def prog_defs
      split: sum.splits prod.splits)

text \<open>
  Claim C7. When the constructor returns, no name in the stored \<open>schema_perm\<close> ends in
  \<open>_old\<close> or in \<open>_all\<close>, whatever names the discovery query returned.
\<close>

theorem schema_perm_excludes_old_all:
  assumes "result_of (init kw (c0, w0)) = Inr ()"
  shows "\<forall>n \<in> set (schema_perm (self_of (init kw (c0, w0)))).
           \<not> endswith n ''_old'' \<and> \<not> endswith n ''_all''"
proof -
  obtain r c w where run: "init kw (c0, w0) = (r, (c, w))"
    by (cases "init kw (c0, w0)") auto
  with assms have ok: "init kw (c0, w0) = (Inr (), (c, w))"
    by (simp add: result_of_def)
  then obtain c1 w1 where "init_load (c1, w1) = (Inr (), (c, w))"
    by (auto simp: init_def then_do_def split: prod.splits sum.splits)
  then obtain rows where "perm_of_rows rows = Inr (schema_perm c)"
    using init_load_perm by blast
  then have "\<forall>n \<in> set (schema_perm c). \<not> endswith n ''_old'' \<and> \<not> endswith n ''_all''"
    using perm_of_rows_suffix by blast
  then show ?thesis
    by (simp add: ok self_of_def)
qed

lemma init_lib_run:
  "result_of (init kwargs_none (conn_A, world_lib)) = Inr ()
   \<and> schema_perm (self_of (init kwargs_none (conn_A, world_lib))) = [''crsp'', ''old'']"
  by (simp add: init_def init_connect_def init_load_def create_engine_def engine_connect_def
      engine_execute_def print_def prog_defs result_of_def self_of_def new_conn_def first_uri_def
      kwargs_none_def world_lib_def world_0_def endswith_def suffix_to_prefix)

theorem schema_perm_excludes_old_all_witness:
  "result_of (init kwargs_none (conn_A, world_lib)) = Inr ()
   \<and> schema_perm (self_of (init kwargs_none (conn_A, world_lib))) = [''crsp'', ''old'']
   \<and> \<not> endswith ''crsp'' ''_old'' \<and> \<not> endswith ''crsp'' ''_all''
   \<and> \<not> endswith ''old'' ''_old'' \<and> \<not> endswith ''old'' ''_all''"
proof -
  have run: "result_of (init kwargs_none (conn_A, world_lib)) = Inr ()"
    by (simp add: init_lib_run)
  have perm: "schema_perm (self_of (init kwargs_none (conn_A, world_lib))) = [''crsp'', ''old'']"
    by (simp add: init_lib_run)
  show ?thesis
    using schema_perm_excludes_old_all [OF run] run perm by simp
qed

text \<open>
  Claim C9. If the first connection attempt fails and, after the credentials have been
  asked for and the engine rebuilt with them, the second attempt fails too, the
  constructor ends with the error of the second attempt, and both \<open>username\<close> and
  \<open>password\<close> of the object are \<open>None\<close>.
\<close>

theorem init_clears_credentials_on_failure:
  assumes "create_engine_result w (first_uri (new_conn kw)) = None"
    and "connect_result w (first_uri (new_conn kw)) = Some e1"
    and "stdin w = typed # pw # rest"
    and "create_engine_result w
           (pghost ((new_conn kw)\<lparr>username := Some (if typed = [] then os_user w else typed),
                                  password := Some pw\<rparr>)) = None"
    and "connect_result w
           (pghost ((new_conn kw)\<lparr>username := Some (if typed = [] then os_user w else typed),
                                  password := Some pw\<rparr>)) = Some e2"
  shows "result_of (init kw (c0, w)) = Inl e2
       \<and> username (self_of (init kw (c0, w))) = None
       \<and> password (self_of (init kw (c0, w))) = None"
  using assms
  by (simp add: init_def init_connect_def init_retry_def get_user_credentials_def input_def
      getpass_def read_line_def create_engine_def engine_connect_def warn_def print_def prog_defs
      result_of_def self_of_def pghost_def)

theorem init_clears_credentials_on_failure_witness:
  "result_of (init kwargs_none (conn_A, world_refused)) = Inl (Exn DatabaseError ''connection refused'')
   \<and> username (self_of (init kwargs_none (conn_A, world_refused))) = None
   \<and> password (self_of (init kwargs_none (conn_A, world_refused))) = None"
proof -
  have eng: "create_engine_result world_refused uri = None" for uri
    by (simp add: world_refused_def world_0_def)
  have con: "connect_result world_refused uri = Some (Exn DatabaseError ''connection refused'')" for uri
    by (simp add: world_refused_def world_0_def)
  have inp: "stdin world_refused = [] # ''pw'' # []"
    by (simp add: world_refused_def)
  show ?thesis
    using init_clears_credentials_on_failure [where ?c0.0 = conn_A, OF eng con inp eng con] .
qed

subsection \<open>The merge-write on concrete files\<close>

lemmas fs_defs = isfile_def read_file_def read_lines_def write_file_def to_linesep_def chmod_def
  owner_readable_def owner_writable_def S_IRUSR_def S_IWUSR_def

lemmas ex_defs = conn_A_def world_0_def world_B_def world_AB_def line_A_def line_B_def

lemmas str_defs = readlines_def split_def bslash_def newline_def cr_def int_of_str_def strip_def
  is_space_def is_digit_def digit_val_def str_int_def digit_char_def nat_digits.simps

text \<open>
  Claim C2 says that a file none of whose lines has the connection's (hostname, port,
  database name) gets a new line for the connection. The loop of \<open>__write_pgpass_file\<close>
  only replaces lines; after it nothing is appended when no line matched. On the file with
  the single profile of \<open>hostB\<close>, written for the connection to \<open>hostA\<close>, the method
  returns normally and the file holds the old line and one more line feed: no line of it
  is an entry for \<open>hostA\<close>.
\<close>

theorem write_pgpass_file_appends_nothing:
  "matching_lines conn_A (file_text world_B ''pgpass'') = []
   \<and> result_of (write_pgpass_file ''pgpass'' (conn_A, world_B)) = Inr ()
   \<and> file_text (world_of (write_pgpass_file ''pgpass'' (conn_A, world_B))) ''pgpass''
       = ''hostB:5432:db2:u2:p2'' @ [newline, newline]
   \<and> matching_lines conn_A
         (file_text (world_of (write_pgpass_file ''pgpass'' (conn_A, world_B))) ''pgpass'') = []"
  by (simp add: write_pgpass_file_def fs_defs prog_defs ex_defs str_defs
      pgpass_line_def matching_lines_def file_text_def result_of_def world_of_def)

text \<open>
  Claim C3 says that writing the profile of (hostA, 5432, db1) leaves a following line of
  (hostB, 5432, db2) as it was. The line that replaces the matching one has no line feed,
  so the line after it is glued to it: the file read back has one line that starts with the
  new \<open>hostA\<close> profile and goes on with the text of the \<open>hostB\<close> profile, and the \<open>hostB\<close>
  line is no longer a line of the file. A second write takes the glued line for the
  \<open>hostA\<close> entry and replaces it, and the text of the \<open>hostB\<close> profile is gone.
\<close>

theorem write_pgpass_file_glues_next_line:
  "file_text world_AB ''pgpass'' = ''hostA:5432:db1:u1:p1'' @ [newline] @ line_B
   \<and> result_of (write_pgpass_file ''pgpass'' (conn_A, world_AB)) = Inr ()
   \<and> readlines (file_text (world_of (write_pgpass_file ''pgpass'' (conn_A, world_AB))) ''pgpass'')
       = [''hostA:5432:db1:alice:secrethostB:5432:db2:u2:p2'' @ [newline], [newline]]
   \<and> line_B \<notin> set (readlines
         (file_text (world_of (write_pgpass_file ''pgpass'' (conn_A, world_AB))) ''pgpass''))
   \<and> file_text (world_of (write_twice ''pgpass'' (conn_A, world_AB))) ''pgpass''
       = ''hostA:5432:db1:alice:secret'' @ [newline, newline]"
  by (simp add: write_twice_def write_pgpass_file_def fs_defs prog_defs ex_defs str_defs
      pgpass_line_def file_text_def result_of_def world_of_def)

text \<open>
  Claim C4 says that two writes in a row leave exactly one line with the connection's
  key, from every starting file. From the file with the single profile of \<open>hostB\<close> both
  writes return normally and the file has no line with the key of the connection to
  \<open>hostA\<close>: the count is zero, not one.
\<close>

theorem write_twice_leaves_no_entry:
  "result_of (write_twice ''pgpass'' (conn_A, world_B)) = Inr ()
   \<and> file_text (world_of (write_twice ''pgpass'' (conn_A, world_B))) ''pgpass''
       = ''hostB:5432:db2:u2:p2'' @ [newline, newline, newline]
   \<and> length (matching_lines conn_A
         (file_text (world_of (write_twice ''pgpass'' (conn_A, world_B))) ''pgpass'')) = 0"
  by (simp add: write_twice_def write_pgpass_file_def fs_defs prog_defs ex_defs str_defs
      pgpass_line_def matching_lines_def file_text_def result_of_def world_of_def)

subsection \<open>The row count\<close>

text \<open>
  Claim C5 says that \<open>get_row_count\<close> returns \<open>None\<close> and prints a diagnostic when the
  dependency query finds nothing. \<open>__get_schema_for_view\<close> takes the first column of
  \<^verbatim>\<open>fetchone()\<close> without looking at it, and \<^verbatim>\<open>fetchone()\<close> is \<open>None\<close> when the query
  returned no row: on an authorized schema whose dependency query returns no row the call
  ends with a TypeError, and nothing has been printed.
\<close>

theorem get_row_count_raises_without_rows:
  "result_of (check_schema_perms ''crsp'' (conn_A, world_0)) = Inr True
   \<and> execute_result world_0 (engine conn_A) (view_sql ''crsp'' ''dsf'') = Inr []
   \<and> result_of (get_row_count ''crsp'' ''dsf'' (conn_A, world_0)) = Inl none_subscript
   \<and> console (world_of (get_row_count ''crsp'' ''dsf'' (conn_A, world_0))) = []"
  by (simp add: get_row_count_def get_schema_for_view_def check_schema_perms_def
      engine_execute_def prog_defs conn_A_def world_0_def result_of_def world_of_def)

subsection \<open>The statement of \<open>get_table\<close>\<close>

lemma digit_char_set: "digit_char d \<in> set ''0123456789''"
  unfolding digit_char_def by (rule nth_mem) simp
lemma nat_digits_set: "set (nat_digits n) \<subseteq> set ''0123456789''"
proof (induction n rule: nat_digits.induct)
  case (1 n)
  show ?case
  proof (cases "n < 10")
    case True
    then show ?thesis
      using digit_char_set [of n] by (subst nat_digits.simps) simp
  next
    case False
    then show ?thesis
      using 1 digit_char_set [of "n mod 10"] by (subst nat_digits.simps) simp
  qed
qed
lemma str_int_set: "set (str_int i) \<subseteq> set ''-0123456789''"
proof (cases "i < 0")
  case True
  have "set (nat_digits (nat (- i))) \<subseteq> set ''-0123456789''"
    by (rule subset_trans [OF nat_digits_set]) (simp add: subset_insertI2)
  with True show ?thesis
    by (simp add: str_int_def)
next
  case False
  have "set (nat_digits (nat i)) \<subseteq> set ''-0123456789''"
    by (rule subset_trans [OF nat_digits_set]) (simp add: subset_insertI2)
  with False show ?thesis
    by (simp add: str_int_def)
qed

lemma sublist_sep:
  assumes "c \<notin> set p"
  shows "sublist p (xs @ c # ys) \<longleftrightarrow> sublist p xs \<or> sublist p ys"
proof
  assume "sublist p (xs @ c # ys)"
  then consider "sublist p xs" | "sublist p (c # ys)"
    | xs1 xs2 where "p = xs1 @ xs2" "suffix xs1 xs" "prefix xs2 (c # ys)"
    by (auto simp: sublist_append)
  then show "sublist p xs \<or> sublist p ys"
  proof cases
    case 1
    then show ?thesis by simp
  next
    case 2
    then have "prefix p (c # ys) \<or> sublist p ys"
      by (simp add: sublist_Cons_right)
    then show ?thesis
    proof
      assume "prefix p (c # ys)"
      then have "p = [] \<or> hd p = c \<and> p \<noteq> []"
        by (cases p) auto
      with assms have "p = []" by (cases p) auto
      then show ?thesis by simp
    qed simp
  next
    case 3
    from 3(3) have "xs2 = [] \<or> (xs2 \<noteq> [] \<and> hd xs2 = c)"
      by (cases xs2) auto
    with assms 3(1) have "xs2 = []" by (cases xs2) auto
    with 3 show ?thesis by (auto intro: suffix_imp_sublist)
  qed
next
  assume "sublist p xs \<or> sublist p ys"
  then show "sublist p (xs @ c # ys)"
    by (auto simp: sublist_append sublist_Cons_right)
qed

lemma no_limit_digits: "\<not> sublist ''LIMIT'' (str_int n @ '';'')"
proof
  assume "sublist ''LIMIT'' (str_int n @ '';'')"
  then have "set ''LIMIT'' \<subseteq> set (str_int n @ '';'')"
    by (rule set_mono_sublist)
  then have "CHR ''L'' \<in> set (str_int n @ '';'')"
    by (simp del: set_append)
  then have "CHR ''L'' \<in> set (str_int n)"
    by simp
  then have "CHR ''L'' \<in> set ''-0123456789''"
    using str_int_set [of n] by (rule rev_subsetD)
  then show False
    by simp
qed

lemma table_sql_no_limit:
  assumes "\<not> sublist ''LIMIT'' cols" "\<not> sublist ''LIMIT'' schema" "\<not> sublist ''LIMIT'' table"
  shows "\<not> sublist ''LIMIT'' (table_sql cols schema table [] offset)"
proof -
  have lim: "CHR '' '' \<notin> set ''LIMIT''" "CHR ''.'' \<notin> set ''LIMIT''"
    by simp_all
  have a: "\<not> sublist ''LIMIT'' (''OFFSET '' @ str_int offset @ '';'')"
    using no_limit_digits [of offset] by (simp add: sublist_Cons_right)
  have b: "\<not> sublist ''LIMIT'' (table @ CHR '' '' # CHR '' '' # ''OFFSET '' @ str_int offset @ '';'')"
    using a assms(3) by (simp add: sublist_sep [OF lim(1)] sublist_Cons_right)
  have c: "\<not> sublist ''LIMIT'' (schema @ CHR ''.'' # table @ CHR '' '' # CHR '' '' # ''OFFSET '' @ str_int offset @ '';'')"
    using b assms(2) by (simp only: sublist_sep [OF lim(2)] simp_thms)
  have d: "\<not> sublist ''LIMIT'' (''from '' @ schema @ CHR ''.'' # table @ CHR '' '' # CHR '' '' # ''OFFSET '' @ str_int offset @ '';'')"
    using c by (simp add: sublist_Cons_right)
  have e: "\<not> sublist ''LIMIT'' (cols @ CHR '' '' # ''from '' @ schema @ CHR ''.'' # table @ CHR '' '' # CHR '' '' # ''OFFSET '' @ str_int offset @ '';'')"
    using d assms(1) by (simp only: sublist_sep [OF lim(1)] simp_thms)
  have f: "\<not> sublist ''LIMIT'' (''select '' @ cols @ CHR '' '' # ''from '' @ schema @ CHR ''.'' # table @ CHR '' '' # CHR '' '' # ''OFFSET '' @ str_int offset @ '';'')"
    using e by (simp add: sublist_Cons_right)
  have "table_sql cols schema table [] offset = ''select '' @ cols @ CHR '' '' # ''from '' @ schema @ CHR ''.'' # table @ CHR '' '' # CHR '' '' # ''OFFSET '' @ str_int offset @ '';''"
    by (simp add: table_sql_def)
  with f show ?thesis by simp
qed

lemma table_sql_limit:
  "sublist (''LIMIT '' @ str_int obs) (table_sql cols schema table ('' LIMIT '' @ str_int obs) offset)"
proof -
  have "table_sql cols schema table ('' LIMIT '' @ str_int obs) offset
      = (''select '' @ cols @ '' from '' @ schema @ ''.'' @ table @ ''  '') @ (''LIMIT '' @ str_int obs)
          @ ('' OFFSET '' @ str_int offset @ '';'')"
    by (simp add: table_sql_def)
  then show ?thesis
    by (simp only: sublist_appendI)
qed

lemma table_sql_offset:
  "sublist (''OFFSET '' @ str_int offset) (table_sql cols schema table obsstmt offset)"
proof -
  have "table_sql cols schema table obsstmt offset
      = (''select '' @ cols @ '' from '' @ schema @ ''.'' @ table @ '' '' @ obsstmt @ '' '')
          @ (''OFFSET '' @ str_int offset) @ '';''"
    by (simp add: table_sql_def)
  then show ?thesis
    by (simp only: sublist_appendI)
qed

lemma str_int_500: "str_int 500 = ''500''"
  by (simp add: str_int_def digit_char_def nat_digits.simps)

lemma str_int_100: "str_int 100 = ''100''"
  by (simp add: str_int_def digit_char_def nat_digits.simps)

lemma get_table_log:
  assumes "library \<in> set (schema_perm c)"
  shows "sql_log (world_of (get_table library table obs offset columns opts (c, w))) =
     sql_log w @ [table_sql (case columns of None \<Rightarrow> ''*'' | Some cs \<Rightarrow> join '','' cs) library table
                    (if obs < 0 then [] else '' LIMIT '' @ str_int obs) offset]"
  using assms
  by (simp add: get_table_def check_schema_perms_def raw_sql_def read_sql_query_def prog_defs
      world_of_def Let_def split: sum.splits)

text \<open>
  Claim C8. On an authorized schema \<open>get_table\<close> hands exactly one statement to the
  engine. With a negative \<open>obs\<close> the statement is the select list, the table and the
  offset with nothing between the table and \<^verbatim>\<open>OFFSET\<close>, and it has no \<^verbatim>\<open>LIMIT\<close> in
  it unless the column list, the schema or the table name bring one; with \<open>obs = 500\<close> it
  contains \<^verbatim>\<open>LIMIT 500\<close>; with \<open>offset = 100\<close> it contains \<^verbatim>\<open>OFFSET 100\<close>.
\<close>

theorem get_table_statement:
  assumes "library \<in> set (schema_perm c)"
  shows "let cols = (case columns of None \<Rightarrow> ''*'' | Some cs \<Rightarrow> join '','' cs);
             stmt = table_sql cols library table
                      (if obs < 0 then [] else '' LIMIT '' @ str_int obs) offset
         in sql_log (world_of (get_table library table obs offset columns opts (c, w)))
              = sql_log w @ [stmt]
          \<and> (obs < 0 \<longrightarrow>
                stmt = ''select '' @ cols @ '' from '' @ library @ ''.'' @ table @ ''  OFFSET ''
                         @ str_int offset @ '';''
              \<and> (\<not> sublist ''LIMIT'' cols \<and> \<not> sublist ''LIMIT'' library
                   \<and> \<not> sublist ''LIMIT'' table \<longrightarrow> \<not> sublist ''LIMIT'' stmt))
          \<and> (obs = 500 \<longrightarrow> sublist ''LIMIT 500'' stmt)
          \<and> (offset = 100 \<longrightarrow> sublist ''OFFSET 100'' stmt)"
proof -
  define cols where "cols = (case columns of None \<Rightarrow> ''*'' | Some cs \<Rightarrow> join '','' cs)"
  have log: "sql_log (world_of (get_table library table obs offset columns opts (c, w)))
      = sql_log w @ [table_sql cols library table
                       (if obs < 0 then [] else '' LIMIT '' @ str_int obs) offset]"
    unfolding cols_def using assms by (rule get_table_log)
  have neg: "table_sql cols library table [] offset
      = ''select '' @ cols @ '' from '' @ library @ ''.'' @ table @ ''  OFFSET ''
          @ str_int offset @ '';''"
    by (simp add: table_sql_def)
  have nolim: "\<not> sublist ''LIMIT'' cols \<and> \<not> sublist ''LIMIT'' library \<and> \<not> sublist ''LIMIT'' table
      \<longrightarrow> \<not> sublist ''LIMIT'' (table_sql cols library table [] offset)"
    using table_sql_no_limit by blast
  have lim: "sublist ''LIMIT 500'' (table_sql cols library table ('' LIMIT '' @ str_int 500) offset)"
    using table_sql_limit [of 500 cols library table offset] by (simp add: str_int_500)
  have off: "sublist ''OFFSET 100'' (table_sql cols library table obsstmt 100)" for obsstmt
    using table_sql_offset [of 100 cols library table obsstmt] by (simp add: str_int_100)
  show ?thesis
    unfolding Let_def cols_def [symmetric]
    using log neg nolim lim off by auto
qed

theorem get_table_statement_witness:
  "sql_log (world_of (get_table ''crsp'' ''dsf'' (- 1) 100 None opts_default (conn_A, world_0)))
     = [''select * from crsp.dsf  OFFSET 100;'']
   \<and> \<not> sublist ''LIMIT'' ''select * from crsp.dsf  OFFSET 100;''
   \<and> sql_log (world_of (get_table ''crsp'' ''dsf'' 500 100 None opts_default (conn_A, world_0)))
     = [''select * from crsp.dsf  LIMIT 500 OFFSET 100;'']
   \<and> sublist ''LIMIT 500'' ''select * from crsp.dsf  LIMIT 500 OFFSET 100;''
   \<and> sublist ''OFFSET 100'' ''select * from crsp.dsf  LIMIT 500 OFFSET 100;''"
proof -
  have perm: "''crsp'' \<in> set (schema_perm conn_A)"
    by (simp add: conn_A_def)
  have log: "sql_log world_0 = []"
    by (simp add: world_0_def)
  have s1: "table_sql ''*'' ''crsp'' ''dsf'' [] 100 = ''select * from crsp.dsf  OFFSET 100;''"
    by (simp add: table_sql_def str_int_100)
  have n: "\<not> sublist ''LIMIT'' ''*'' \<and> \<not> sublist ''LIMIT'' ''crsp'' \<and> \<not> sublist ''LIMIT'' ''dsf''"
    by (simp add: sublist_code)
  note a = get_table_statement [OF perm, where table = "''dsf''" and obs = "- 1" and offset = 100
      and columns = None and opts = opts_default and w = world_0]
  note b = get_table_statement [OF perm, where table = "''dsf''" and obs = 500 and offset = 100
      and columns = None and opts = opts_default and w = world_0]
  from a have a': "sql_log (world_of (get_table ''crsp'' ''dsf'' (- 1) 100 None opts_default (conn_A, world_0)))
     = [''select * from crsp.dsf  OFFSET 100;''] \<and> \<not> sublist ''LIMIT'' ''select * from crsp.dsf  OFFSET 100;''"
    using n by (simp add: Let_def log s1)
  from b have b': "sql_log (world_of (get_table ''crsp'' ''dsf'' 500 100 None opts_default (conn_A, world_0)))
     = [''select * from crsp.dsf  LIMIT 500 OFFSET 100;'']
   \<and> sublist ''LIMIT 500'' ''select * from crsp.dsf  LIMIT 500 OFFSET 100;''
   \<and> sublist ''OFFSET 100'' ''select * from crsp.dsf  LIMIT 500 OFFSET 100;''"
    by (simp add: Let_def log table_sql_def str_int_100 str_int_500)
  from a' b' show ?thesis by simp
qed

subsection \<open>The credential prompt\<close>

lemma quietD:
  "quiet m \<Longrightarrow> m (c, w) = (r, (c', w')) \<Longrightarrow> console w' = console w \<and> stdin w' = stdin w \<and> c' = c"
  by (auto simp: quiet_def world_of_def self_of_def dest!: spec [where x = c] spec [where x = w])

lemma quiet_ret [simp]: "quiet (ret x)"
  by (simp add: quiet_def ret_def world_of_def self_of_def)

lemma quiet_raise [simp]: "quiet (raise e)"
  by (simp add: quiet_def raise_def world_of_def self_of_def)

lemma quiet_lift [simp]: "quiet (lift r)"
  by (cases r) (simp_all add: lift_def)

lemma quiet_self_get [simp]: "quiet (self_get f)"
  by (simp add: quiet_def self_get_def world_of_def self_of_def)

lemma quiet_world_get [simp]: "quiet (world_get f)"
  by (simp add: quiet_def world_get_def world_of_def self_of_def)

lemma quiet_fs_upd [simp]: "quiet (world_upd (\<lambda>w. w\<lparr>fs := g w\<rparr>))"
  by (simp add: quiet_def world_upd_def world_of_def self_of_def)

lemma quiet_then_do:
  assumes "quiet m" and "\<And>x. quiet (f x)"
  shows "quiet (then_do m f)"
  unfolding quiet_def
proof (intro allI)
  fix c w
  obtain r c1 w1 where m: "m (c, w) = (r, (c1, w1))"
    by (cases "m (c, w)") auto
  have q1: "console w1 = console w \<and> stdin w1 = stdin w \<and> c1 = c"
    using quietD [OF assms(1) m] .
  show "console (world_of (then_do m f (c, w))) = console w
      \<and> stdin (world_of (then_do m f (c, w))) = stdin w
      \<and> self_of (then_do m f (c, w)) = c"
  proof (cases r)
    case (Inl e)
    then show ?thesis using m q1 by (simp add: then_do_def world_of_def self_of_def)
  next
    case (Inr x)
    obtain r2 c2 w2 where f: "f x (c1, w1) = (r2, (c2, w2))"
      by (cases "f x (c1, w1)") auto
    have "console w2 = console w1 \<and> stdin w2 = stdin w1 \<and> c2 = c1"
      using quietD [OF assms(2) f] .
    then show ?thesis
      using Inr m f q1 by (simp add: then_do_def world_of_def self_of_def)
  qed
qed

lemma quiet_isfile [simp]: "quiet (isfile p)"
  by (simp add: isfile_def)

lemma quiet_isdir [simp]: "quiet (isdir p)"
  by (simp add: isdir_def)

lemma quiet_path_exists [simp]: "quiet (path_exists p)"
  by (simp add: path_exists_def)

lemma quiet_getenv [simp]: "quiet (getenv p)"
  by (simp add: getenv_def)

lemma quiet_path_sep [simp]: "quiet path_sep"
  by (simp add: path_sep_def quiet_then_do)

lemma quiet_mkdir [simp]: "quiet (mkdir p)"
  by (auto simp: mkdir_def intro!: quiet_then_do split: option.splits)

lemma quiet_chmod [simp]: "quiet (chmod p m)"
  by (auto simp: chmod_def intro!: quiet_then_do split: option.splits node.splits)

lemma quiet_read_file [simp]: "quiet (read_file p)"
  by (auto simp: read_file_def intro!: quiet_then_do split: option.splits node.splits)

lemma quiet_read_lines [simp]: "quiet (read_lines p)"
  by (auto simp: read_lines_def intro!: quiet_then_do)

lemma quiet_write_file [simp]: "quiet (write_file p t)"
  by (auto simp: write_file_def intro!: quiet_then_do split: option.splits node.splits)

lemma quiet_write_pgpass_file [simp]: "quiet (write_pgpass_file p)"
  by (auto simp: write_pgpass_file_def intro!: quiet_then_do split: option.splits)

lemma quiet_unix [simp]: "quiet create_pgpass_file_unix"
  by (auto simp: create_pgpass_file_unix_def intro!: quiet_then_do split: option.splits)

lemma quiet_win32 [simp]: "quiet create_pgpass_file_win32"
  by (auto simp: create_pgpass_file_win32_def intro!: quiet_then_do split: option.splits)

lemma quiet_platform_writer [simp]: "quiet platform_writer"
  by (auto simp: platform_writer_def intro!: quiet_then_do)

lemma then_quiet:
  assumes "quiet f"
  shows "console (world_of (then_do m (\<lambda>_. f) s)) = console (world_of (m s))
       \<and> stdin (world_of (then_do m (\<lambda>_. f) s)) = stdin (world_of (m s))
       \<and> self_of (then_do m (\<lambda>_. f) s) = self_of (m s)"
proof -
  obtain r c1 w1 where m: "m s = (r, (c1, w1))"
    by (cases "m s") auto
  show ?thesis
  proof (cases r)
    case (Inl e)
    then show ?thesis using m by (simp add: then_do_def world_of_def self_of_def)
  next
    case (Inr x)
    obtain r2 c2 w2 where f: "f (c1, w1) = (r2, (c2, w2))"
      by (cases "f (c1, w1)") auto
    from quietD [OF assms f] Inr m f show ?thesis
      by (simp add: then_do_def world_of_def self_of_def)
  qed
qed

lemma ask_credentials_prompt:
  "prefix (console w @ [username_prompt w]) (console (world_of (ask_credentials (c, w))))"
  by (simp add: ask_credentials_def get_user_credentials_def input_def getpass_def read_line_def
      prog_defs world_of_def username_prompt_def split: list.splits)

lemma ask_credentials_stores:
  assumes "stdin w = typed # pw # rest"
  shows "self_of (ask_credentials (c, w))
           = c\<lparr>username := Some (if typed = [] then os_user w else typed), password := Some pw\<rparr>"
  using assms
  by (simp add: ask_credentials_def get_user_credentials_def input_def getpass_def read_line_def
      prog_defs self_of_def)

lemma create_pgpass_file_asks:
  assumes "\<not> truthy_opt (username c) \<or> \<not> truthy_opt (password c)"
  shows "create_pgpass_file (c, w) = then_do ask_credentials (\<lambda>_. platform_writer) (c, w)"
  using assms
  by (auto simp: create_pgpass_file_def then_do_def self_get_def split: prod.splits sum.splits)

lemma create_pgpass_file_does_not_ask:
  assumes "truthy_opt (username c) \<and> truthy_opt (password c)"
  shows "create_pgpass_file (c, w) = platform_writer (c, w)"
  using assms
  by (simp add: create_pgpass_file_def then_do_def self_get_def ret_def)

lemma init_connect_passwordless:
  assumes "create_engine_result w (first_uri (new_conn kw)) = None"
    and "connect_result w (first_uri (new_conn kw)) = None"
  shows "password (self_of (init kw (c0, w))) = Some []"
  using assms
  by (simp add: init_def init_connect_def init_load_def create_engine_def engine_connect_def
      engine_execute_def print_def prog_defs self_of_def new_conn_def split: sum.splits prod.splits)

text \<open>
  Claim C10, amended. When the first, passwordless connection attempt of the constructor
  succeeds, the stored password is the empty string. A call of \<open>create_pgpass_file\<close> on
  an object whose user name or password is empty or \<open>None\<close>, as on the object the
  constructor leaves, asks for the credentials before it writes, in any environment: it
  is the prompt followed by the platform's writer, the prompt for the user name is the
  next thing on the console, and what was typed is stored in the object. A call on an
  object whose user name and password are both non-empty does not ask: it is the
  platform's writer alone, shows nothing, reads no input and leaves the object as it is.
  So a call asks only while a credential is empty, not every time.
\<close>

theorem create_pgpass_file_prompts_while_a_credential_is_empty:
  assumes "create_engine_result w (first_uri (new_conn kw)) = None"
    and "connect_result w (first_uri (new_conn kw)) = None"
  shows "password (self_of (init kw (c0, w))) = Some []
       \<and> create_pgpass_file (self_of (init kw (c0, w)), w2)
           = then_do ask_credentials (\<lambda>_. platform_writer) (self_of (init kw (c0, w)), w2)
       \<and> prefix (console w2 @ [username_prompt w2])
           (console (world_of (create_pgpass_file (self_of (init kw (c0, w)), w2))))
       \<and> (\<not> truthy_opt (username c) \<or> \<not> truthy_opt (password c) \<longrightarrow>
             create_pgpass_file (c, w2) = then_do ask_credentials (\<lambda>_. platform_writer) (c, w2)
           \<and> prefix (console w2 @ [username_prompt w2])
               (console (world_of (create_pgpass_file (c, w2))))
           \<and> (stdin w2 = typed # pw # rest \<longrightarrow>
                 self_of (create_pgpass_file (c, w2))
                   = c\<lparr>username := Some (if typed = [] then os_user w2 else typed),
                        password := Some pw\<rparr>))
       \<and> (truthy_opt (username c) \<and> truthy_opt (password c) \<longrightarrow>
             create_pgpass_file (c, w2) = platform_writer (c, w2)
           \<and> console (world_of (create_pgpass_file (c, w2))) = console w2
           \<and> stdin (world_of (create_pgpass_file (c, w2))) = stdin w2
           \<and> self_of (create_pgpass_file (c, w2)) = c)"
proof -
  have asks: "create_pgpass_file (d, w2) = then_do ask_credentials (\<lambda>_. platform_writer) (d, w2)
      \<and> prefix (console w2 @ [username_prompt w2]) (console (world_of (create_pgpass_file (d, w2))))
      \<and> (stdin w2 = typed # pw # rest \<longrightarrow>
            self_of (create_pgpass_file (d, w2))
              = d\<lparr>username := Some (if typed = [] then os_user w2 else typed), password := Some pw\<rparr>)"
    if empty: "\<not> truthy_opt (username d) \<or> \<not> truthy_opt (password d)" for d
  proof -
    note eq = create_pgpass_file_asks [OF empty, of w2]
    note after = then_quiet [OF quiet_platform_writer, of ask_credentials "(d, w2)"]
    show ?thesis
      using ask_credentials_prompt [of w2 d] ask_credentials_stores [of w2 typed pw rest d]
      by (simp add: eq after)
  qed
  have pw0: "password (self_of (init kw (c0, w))) = Some []"
    using assms by (rule init_connect_passwordless)
  then have first: "\<not> truthy_opt (username (self_of (init kw (c0, w))))
      \<or> \<not> truthy_opt (password (self_of (init kw (c0, w))))"
    by simp
  have silent: "create_pgpass_file (c, w2) = platform_writer (c, w2)
      \<and> console (world_of (create_pgpass_file (c, w2))) = console w2
      \<and> stdin (world_of (create_pgpass_file (c, w2))) = stdin w2
      \<and> self_of (create_pgpass_file (c, w2)) = c"
    if full: "truthy_opt (username c) \<and> truthy_opt (password c)"
    using create_pgpass_file_does_not_ask [OF full, of w2] quiet_platform_writer
    by (simp add: quiet_def)
  show ?thesis
    using pw0 asks [OF first] asks [of c] silent by blast
qed

lemmas create_defs = create_pgpass_file_def ask_credentials_def platform_writer_def
  create_pgpass_file_unix_def get_user_credentials_def input_def getpass_def read_line_def
  getenv_def path_sep_def write_pgpass_file_def pgpass_line_def line_matches.simps

lemma init_trusted:
  "result_of (init kwargs_none (conn_A, world_lib)) = Inr ()
   \<and> self_of (init kwargs_none (conn_A, world_lib)) = conn_trusted"
  by (simp add: init_def init_connect_def init_load_def create_engine_def engine_connect_def
      engine_execute_def print_def prog_defs result_of_def self_of_def new_conn_def first_uri_def
      kwargs_none_def world_lib_def world_0_def endswith_def suffix_to_prefix conn_trusted_def
      pguri_host_def WRDS_POSTGRES_HOST_def WRDS_POSTGRES_PORT_def WRDS_POSTGRES_DB_def
      str_int_def digit_char_def nat_digits.simps)

lemma first_call_typed:
  "result_of (create_pgpass_file (conn_trusted, world_typed)) = Inr ()
   \<and> console (world_of (create_pgpass_file (conn_trusted, world_typed)))
       = [''Enter your WRDS username [me]:'', ''Enter your password:'']
   \<and> stdin (world_of (create_pgpass_file (conn_trusted, world_typed))) = [''again'']
   \<and> file_text (world_of (create_pgpass_file (conn_trusted, world_typed))) ''/home/me/.pgpass''
       = ''wrds-pgdata.wharton.upenn.edu:9737:wrds:alice:secret'' @ [newline]"
  by (simp add: create_defs fs_defs prog_defs str_defs conn_trusted_def world_typed_def world_0_def
      file_text_def result_of_def world_of_def)

theorem create_pgpass_file_prompts_while_a_credential_is_empty_witness:
  "result_of (init kwargs_none (conn_A, world_lib)) = Inr ()
   \<and> self_of (init kwargs_none (conn_A, world_lib)) = conn_trusted
   \<and> password conn_trusted = Some []
   \<and> prefix [''Enter your WRDS username [me]:'']
       (console (world_of (create_pgpass_file (conn_trusted, world_typed))))
   \<and> result_of (create_pgpass_file (conn_trusted, world_typed)) = Inr ()
   \<and> file_text (world_of (create_pgpass_file (conn_trusted, world_typed))) ''/home/me/.pgpass''
       = ''wrds-pgdata.wharton.upenn.edu:9737:wrds:alice:secret'' @ [newline]
   \<and> self_of (create_pgpass_file (conn_trusted, world_typed))
       = conn_trusted\<lparr>username := Some ''alice'', password := Some ''secret''\<rparr>
   \<and> console (world_of (create_pgpass_file (conn_A, world_0))) = []
   \<and> stdin (world_of (create_pgpass_file (conn_A, world_0))) = []
   \<and> self_of (create_pgpass_file (conn_A, world_0)) = conn_A"
proof -
  have eng: "create_engine_result world_lib uri = None" for uri
    by (simp add: world_lib_def world_0_def)
  have con: "connect_result world_lib uri = None" for uri
    by (simp add: world_lib_def world_0_def)
  have obj: "self_of (init kwargs_none (conn_A, world_lib)) = conn_trusted"
    by (simp add: init_trusted)
  have empty: "\<not> truthy_opt (username conn_trusted) \<or> \<not> truthy_opt (password conn_trusted)"
    by (simp add: conn_trusted_def)
  have typed: "stdin world_typed = ''alice'' # ''secret'' # [''again'']"
    by (simp add: world_typed_def)
  have full: "truthy_opt (username conn_A) \<and> truthy_opt (password conn_A)"
    by (simp add: conn_A_def)
  have shown: "console world_typed @ [username_prompt world_typed] = [''Enter your WRDS username [me]:'']"
    by (simp add: world_typed_def world_0_def username_prompt_def)
  have quiet0: "console world_0 = [] \<and> stdin world_0 = []"
    by (simp add: world_0_def)
  note first = create_pgpass_file_prompts_while_a_credential_is_empty
    [where kw = kwargs_none and ?c0.0 = conn_A and w = world_lib and ?w2.0 = world_typed
       and c = conn_trusted and typed = "''alice''" and pw = "''secret''" and rest = "[''again'']",
     OF eng con]
  note later = create_pgpass_file_prompts_while_a_credential_is_empty
    [where kw = kwargs_none and ?c0.0 = conn_A and w = world_lib and ?w2.0 = world_0
       and c = conn_A, OF eng con]
  from first have a: "password conn_trusted = Some []"
    by (simp add: obj)
  from first empty have b: "prefix [''Enter your WRDS username [me]:'']
       (console (world_of (create_pgpass_file (conn_trusted, world_typed))))"
    unfolding shown by blast
  from first empty typed have "self_of (create_pgpass_file (conn_trusted, world_typed))
       = conn_trusted\<lparr>username := Some (if ''alice'' = [] then os_user world_typed else ''alice''),
                        password := Some ''secret''\<rparr>"
    by blast
  then have c: "self_of (create_pgpass_file (conn_trusted, world_typed))
       = conn_trusted\<lparr>username := Some ''alice'', password := Some ''secret''\<rparr>"
    by simp
  from later full have d: "console (world_of (create_pgpass_file (conn_A, world_0))) = console world_0
      \<and> stdin (world_of (create_pgpass_file (conn_A, world_0))) = stdin world_0
      \<and> self_of (create_pgpass_file (conn_A, world_0)) = conn_A"
    by blast
  show ?thesis
    using init_trusted a b c d first_call_typed by (simp add: quiet0)
qed

text \<open>
  The claim as it was written, that every call on such a connection asks, fails at the
  second call: after a passwordless construction the user types \<^verbatim>\<open>alice\<close> and
  \<^verbatim>\<open>secret\<close> at the first call, and the second call adds nothing to the console and
  reads none of the input that is left.
\<close>

theorem second_call_does_not_prompt:
  "result_of (init kwargs_none (conn_A, world_lib)) = Inr ()
   \<and> self_of (init kwargs_none (conn_A, world_lib)) = conn_trusted
   \<and> password conn_trusted = Some []
   \<and> result_of (create_twice (conn_trusted, world_typed)) = Inr ()
   \<and> console (world_of (create_pgpass_file (conn_trusted, world_typed)))
       = [''Enter your WRDS username [me]:'', ''Enter your password:'']
   \<and> console (world_of (create_twice (conn_trusted, world_typed)))
       = [''Enter your WRDS username [me]:'', ''Enter your password:'']
   \<and> stdin (world_of (create_pgpass_file (conn_trusted, world_typed))) = [''again'']
   \<and> stdin (world_of (create_twice (conn_trusted, world_typed))) = [''again'']"
proof -
  have twice: "result_of (create_twice (conn_trusted, world_typed)) = Inr ()
     \<and> console (world_of (create_twice (conn_trusted, world_typed)))
       = [''Enter your WRDS username [me]:'', ''Enter your password:'']
     \<and> stdin (world_of (create_twice (conn_trusted, world_typed))) = [''again'']"
    by (simp add: create_twice_def create_defs fs_defs prog_defs str_defs conn_trusted_def
        world_typed_def world_0_def result_of_def world_of_def)
  have "password conn_trusted = Some []"
    by (simp add: conn_trusted_def)
  then show ?thesis
    using init_trusted first_call_typed twice by simp
qed

subsection \<open>Escaping the password\<close>

lemma escaped_Nil [simp]: "escaped [] = []"
  by (simp add: escaped_def)

lemma placeheld_Nil [simp]: "placeheld [] = []"
  by (simp add: placeheld_def)




























end
